theory Spec2Isabelle
  imports Main "HOL-Library.Word"
begin

unbundle bit_operations_syntax

section \<open>Data model\<close>

text \<open>
  An OpenCV colour image is a numpy array of shape (rows, cols, 3) over uint8. It is
  modelled by its shape together with the pixel at each (row, column); only the pixels
  inside the shape belong to the array. A pixel holds its three channels in OpenCV's
  order: blue, green, red. A grey image has one channel per pixel.
\<close>

type_synonym u8 = "8 word"
type_synonym pixel = "u8 \<times> u8 \<times> u8"

record 'a raster =
  rows :: nat
  cols :: nat
  px :: "nat \<Rightarrow> nat \<Rightarrow> 'a"

type_synonym image = "pixel raster"

text \<open>A point is (x, y): x counts columns, y counts rows, and both may lie off the image.\<close>

type_synonym point = "int \<times> int"

text \<open>One entry \<open>[landmarkID, cx, cy]\<close> of the list built by \<open>getLandmarkPositions\<close>.\<close>

type_synonym landmark = "int \<times> int \<times> int"

datatype error = IndexError | ValueError | Cv2Error

definition and_then :: "error + 'a \<Rightarrow> ('a \<Rightarrow> error + 'b) \<Rightarrow> error + 'b" where
  "and_then m f = (case m of Inl e \<Rightarrow> Inl e | Inr v \<Rightarrow> f v)"

text \<open>Python's \<open>xs[i]\<close> for an index that is not negative.\<close>

definition item :: "'a list \<Rightarrow> nat \<Rightarrow> error + 'a" where
  "item xs i = (if i < length xs then Inr (xs ! i) else Inl IndexError)"

section \<open>HandTrackingModule.py\<close>

definition tipIds :: "nat list" where
  "tipIds = [4, 8, 12, 16, 20]"

text \<open>
  \<open>getLandmarkPositions\<close>: no hand gives the empty list; otherwise the landmarks of the
  hand are numbered in order. The products \<open>int(lm.x * width)\<close> and \<open>int(lm.y * height)\<close>
  are taken as given, so a hand arrives as its list of pixel coordinates.
\<close>

definition getLandmarkPositions :: "point list option \<Rightarrow> landmark list" where
  "getLandmarkPositions multi_hand_landmarks =
     (case multi_hand_landmarks of
        None \<Rightarrow> []
      | Some myHand \<Rightarrow> map (\<lambda>(landmarkID, (cx, cy)). (int landmarkID, cx, cy)) (enumerate 0 myHand))"

definition lm_x :: "landmark \<Rightarrow> int" where
  "lm_x l = fst (snd l)"

definition lm_y :: "landmark \<Rightarrow> int" where
  "lm_y l = snd (snd l)"

text \<open>The thumb of \<open>fingersUp\<close>: the first comparison picks the left or the right hand.\<close>

definition thumbUp :: "landmark list \<Rightarrow> error + int" where
  "thumbUp landmarkList =
     and_then (item landmarkList (tipIds ! 0)) (\<lambda>tip.
     and_then (item landmarkList (tipIds ! 4)) (\<lambda>pinky.
     and_then (item landmarkList (tipIds ! 0 - 1)) (\<lambda>below.
       if lm_x tip < lm_x pinky
       then (if lm_x tip < lm_x below then Inr 1 else Inr 0)
       else (if lm_x tip > lm_x below then Inr 1 else Inr 0))))"

text \<open>One round of the loop \<open>for id in range(1, 5)\<close>.\<close>

definition fingerUp :: "landmark list \<Rightarrow> nat \<Rightarrow> error + int" where
  "fingerUp landmarkList i =
     and_then (item landmarkList (tipIds ! i)) (\<lambda>tip.
     and_then (item landmarkList (tipIds ! i - 2)) (\<lambda>joint.
       if lm_y tip < lm_y joint then Inr 1 else Inr 0))"

fun fingersLoop :: "landmark list \<Rightarrow> nat list \<Rightarrow> int list \<Rightarrow> error + int list" where
  "fingersLoop landmarkList [] fingers = Inr fingers"
| "fingersLoop landmarkList (i # ids) fingers =
     and_then (fingerUp landmarkList i) (\<lambda>b. fingersLoop landmarkList ids (fingers @ [b]))"

definition fingersUp :: "landmark list \<Rightarrow> error + int list" where
  "fingersUp landmarkList =
     and_then (thumbUp landmarkList) (\<lambda>t. fingersLoop landmarkList [1, 2, 3, 4] [t])"

section \<open>OpenCV and numpy primitives used by VirtualPainter.py\<close>

text \<open>\<open>np.zeros((rows, cols, 3), np.uint8)\<close>\<close>

definition np_zeros :: "nat \<Rightarrow> nat \<Rightarrow> image" where
  "np_zeros r c = \<lparr>rows = r, cols = c, px = (\<lambda>_ _. (0, 0, 0))\<rparr>"

text \<open>
  The drawing primitives write one colour to every pixel of the image that the shape
  covers and leave every other pixel as it was. Which pixels a shape covers is OpenCV's
  business; the model takes the ideal shapes: a thick line covers the points whose
  distance from the segment is at most half the thickness (so its ends are round and a
  line from a point to itself is a disc), a filled circle the points within its radius,
  a filled rectangle the points between its two corners.
\<close>

definition on_thick_line :: "point \<Rightarrow> point \<Rightarrow> int \<Rightarrow> point \<Rightarrow> bool" where
  "on_thick_line p q thickness a =
     (case p of (x0, y0) \<Rightarrow> case q of (x1, y1) \<Rightarrow> case a of (x, y) \<Rightarrow>
        let dx = x1 - x0; dy = y1 - y0; wx = x - x0; wy = y - y0;
            len2 = dx * dx + dy * dy; dot = wx * dx + wy * dy
        in if len2 = 0 \<or> dot \<le> 0 then 4 * (wx * wx + wy * wy) \<le> thickness * thickness
           else if len2 \<le> dot
             then 4 * ((x - x1) * (x - x1) + (y - y1) * (y - y1)) \<le> thickness * thickness
           else 4 * ((wx * dy - wy * dx) * (wx * dy - wy * dx)) \<le> thickness * thickness * len2)"

definition paint :: "image \<Rightarrow> (point \<Rightarrow> bool) \<Rightarrow> pixel \<Rightarrow> image" where
  "paint img covered color =
     img\<lparr>px := (\<lambda>r c. if r < rows img \<and> c < cols img \<and> covered (int c, int r)
                        then color else px img r c)\<rparr>"

definition cv2_line :: "image \<Rightarrow> point \<Rightarrow> point \<Rightarrow> pixel \<Rightarrow> int \<Rightarrow> image" where
  "cv2_line img p q color thickness = paint img (on_thick_line p q thickness) color"

definition cv2_circle_filled :: "image \<Rightarrow> point \<Rightarrow> int \<Rightarrow> pixel \<Rightarrow> image" where
  "cv2_circle_filled img center radius color =
     paint img (\<lambda>(x, y). (x - fst center) * (x - fst center) + (y - snd center) * (y - snd center)
                          \<le> radius * radius) color"

definition cv2_rectangle_filled :: "image \<Rightarrow> point \<Rightarrow> point \<Rightarrow> pixel \<Rightarrow> image" where
  "cv2_rectangle_filled img p q color =
     paint img (\<lambda>(x, y). min (fst p) (fst q) \<le> x \<and> x \<le> max (fst p) (fst q) \<and>
                          min (snd p) (snd q) \<le> y \<and> y \<le> max (snd p) (snd q)) color"

text \<open>
  \<open>cv2.cvtColor(_, cv2.COLOR_BGR2GRAY)\<close> on uint8: the weights 0.114, 0.587 and 0.299 of
  blue, green and red in 15-bit fixed point, rounded.
\<close>

definition gray_of :: "pixel \<Rightarrow> u8" where
  "gray_of p = (case p of (b, g, r) \<Rightarrow>
     of_nat ((unat b * 3735 + unat g * 19235 + unat r * 9798 + 16384) div 32768))"

definition cvtColor_BGR2GRAY :: "image \<Rightarrow> u8 raster" where
  "cvtColor_BGR2GRAY img = \<lparr>rows = rows img, cols = cols img, px = (\<lambda>r c. gray_of (px img r c))\<rparr>"

text \<open>\<open>cv2.threshold(_, thresh, maxval, cv2.THRESH_BINARY_INV)\<close>\<close>

definition threshold_BINARY_INV :: "u8 raster \<Rightarrow> u8 \<Rightarrow> u8 \<Rightarrow> u8 raster" where
  "threshold_BINARY_INV src thresh maxval =
     \<lparr>rows = rows src, cols = cols src,
      px = (\<lambda>r c. if thresh < px src r c then 0 else maxval)\<rparr>"

definition cvtColor_GRAY2BGR :: "u8 raster \<Rightarrow> image" where
  "cvtColor_GRAY2BGR src =
     \<lparr>rows = rows src, cols = cols src, px = (\<lambda>r c. (px src r c, px src r c, px src r c))\<rparr>"

definition pixel_and :: "pixel \<Rightarrow> pixel \<Rightarrow> pixel" where
  "pixel_and p q = (case p of (b, g, r) \<Rightarrow> case q of (b', g', r') \<Rightarrow> (b AND b', g AND g', r AND r'))"

definition pixel_or :: "pixel \<Rightarrow> pixel \<Rightarrow> pixel" where
  "pixel_or p q = (case p of (b, g, r) \<Rightarrow> case q of (b', g', r') \<Rightarrow> (b OR b', g OR g', r OR r'))"

text \<open>The bitwise operations of OpenCV refuse two images of different sizes.\<close>

definition cv2_bitwise_and :: "image \<Rightarrow> image \<Rightarrow> error + image" where
  "cv2_bitwise_and a b =
     (if rows a = rows b \<and> cols a = cols b
      then Inr \<lparr>rows = rows a, cols = cols a, px = (\<lambda>r c. pixel_and (px a r c) (px b r c))\<rparr>
      else Inl Cv2Error)"

definition cv2_bitwise_or :: "image \<Rightarrow> image \<Rightarrow> error + image" where
  "cv2_bitwise_or a b =
     (if rows a = rows b \<and> cols a = cols b
      then Inr \<lparr>rows = rows a, cols = cols a, px = (\<lambda>r c. pixel_or (px a r c) (px b r c))\<rparr>
      else Inl Cv2Error)"

text \<open>
  \<open>img[0:h, 0:w] = header\<close> for a header of shape (h, w, 3): the slice is clipped to the
  image, and numpy raises ValueError unless the header has the shape of the slice or
  broadcasts to it (an axis of length 1, which meets a clipped axis only when that is
  empty, so that nothing is written along it).
\<close>

definition paste_top_left :: "image \<Rightarrow> image \<Rightarrow> error + image" where
  "paste_top_left img hdr =
     (let h = min (rows hdr) (rows img); w = min (cols hdr) (cols img)
      in if (rows hdr = h \<or> rows hdr = 1) \<and> (cols hdr = w \<or> cols hdr = 1)
         then Inr (img\<lparr>px := (\<lambda>r c. if r < h \<and> c < w then px hdr r c else px img r c)\<rparr>)
         else Inl ValueError)"

section \<open>VirtualPainter.py\<close>

definition WIDTH :: nat where "WIDTH = 1280"
definition HEIGHT :: nat where "HEIGHT = 720"
definition POINTER_THICKNESS :: int where "POINTER_THICKNESS = 20"

text \<open>The variables of the main loop that live from one frame to the next.\<close>

record painter =
  header :: image
  draw_color :: pixel
  img_canvas :: image
  last_x :: int
  last_y :: int

text \<open>The state before the first frame; \<open>overlay_list[0]\<close> needs a header image.\<close>

definition init :: "image list \<Rightarrow> error + painter" where
  "init overlay_list =
     and_then (item overlay_list 0) (\<lambda>h.
       Inr \<lparr>header = h, draw_color = (0, 0, 255), img_canvas = np_zeros HEIGHT WIDTH,
            last_x = 0, last_y = 0\<rparr>)"

text \<open>The toolbar test of the selection branch (lines 49 to 61).\<close>

definition pick_tool :: "image list \<Rightarrow> painter \<Rightarrow> int \<Rightarrow> int \<Rightarrow> error + painter" where
  "pick_tool overlay_list st x1 y1 =
     (if y1 < 100 then
        if 60 < x1 \<and> x1 < 230 then
          and_then (item overlay_list 0) (\<lambda>h. Inr (st\<lparr>header := h, draw_color := (0, 0, 255)\<rparr>))
        else if 380 < x1 \<and> x1 < 550 then
          and_then (item overlay_list 1) (\<lambda>h. Inr (st\<lparr>header := h, draw_color := (255, 0, 0)\<rparr>))
        else if 700 < x1 \<and> x1 < 870 then
          and_then (item overlay_list 2) (\<lambda>h. Inr (st\<lparr>header := h, draw_color := (0, 255, 0)\<rparr>))
        else if 1030 < x1 \<and> x1 < 1250 then
          and_then (item overlay_list 3) (\<lambda>h. Inr (st\<lparr>header := h, draw_color := (0, 0, 0)\<rparr>))
        else Inr st
      else Inr st)"

text \<open>Selection mode (lines 47 to 62): the pen is lifted, a tool may be picked.\<close>

definition selection_mode ::
  "image list \<Rightarrow> painter \<Rightarrow> image \<Rightarrow> point \<Rightarrow> point \<Rightarrow> error + painter \<times> image" where
  "selection_mode overlay_list st img p1 p2 =
     (case p1 of (x1, y1) \<Rightarrow> case p2 of (x2, y2) \<Rightarrow>
        and_then (pick_tool overlay_list (st\<lparr>last_x := 0, last_y := 0\<rparr>) x1 y1) (\<lambda>st'.
          Inr (st', cv2_rectangle_filled img (x1, y1 - 25) (x2, y2 + 25) (draw_color st'))))"

text \<open>Draw mode (lines 64 to 69).\<close>

definition draw_mode :: "painter \<Rightarrow> image \<Rightarrow> point \<Rightarrow> painter \<times> image" where
  "draw_mode st img p1 =
     (case p1 of (x1, y1) \<Rightarrow>
        let img' = cv2_circle_filled img (x1, y1) POINTER_THICKNESS (draw_color st);
            st1 = (if last_x st = 0 \<and> last_y st = 0 then st\<lparr>last_x := x1, last_y := y1\<rparr> else st);
            st2 = st1\<lparr>img_canvas := cv2_line (img_canvas st1) (last_x st1, last_y st1) (x1, y1)
                                          (draw_color st1) POINTER_THICKNESS\<rparr>
        in (st2\<lparr>last_x := x1, last_y := y1\<rparr>, img'))"

text \<open>The clearing test that follows both branches (lines 71 and 72).\<close>

definition clear_canvas :: "int list \<Rightarrow> painter \<Rightarrow> painter" where
  "clear_canvas fingers_up st =
     (if list_all (\<lambda>x. x \<ge> 1) fingers_up
      then st\<lparr>img_canvas := np_zeros (rows (img_canvas st)) (cols (img_canvas st))\<rparr>
      else st)"

text \<open>Finger gestures of one frame (lines 41 to 72).\<close>

definition handle_gestures ::
  "image list \<Rightarrow> painter \<Rightarrow> image \<Rightarrow> landmark list \<Rightarrow> error + painter \<times> image" where
  "handle_gestures overlay_list st img landmark_list =
     (if length landmark_list > 0 then
        and_then (fingersUp landmark_list) (\<lambda>fingers_up.
        and_then (item landmark_list (tipIds ! 1)) (\<lambda>l1.
        and_then (item landmark_list (tipIds ! 2)) (\<lambda>l2.
        and_then
          (if fingers_up ! 1 \<noteq> 0 \<and> fingers_up ! 2 \<noteq> 0
             then selection_mode overlay_list st img (snd l1) (snd l2)
           else if fingers_up ! 1 \<noteq> 0 \<and> \<not> fingers_up ! 2 \<noteq> 0
             then Inr (draw_mode st img (snd l1))
           else Inr (st, img))
          (\<lambda>(st', img'). Inr (clear_canvas fingers_up st', img')))))
      else Inr (st, img))"

text \<open>The mask computation (lines 76 to 80).\<close>

definition mask_canvas :: "image \<Rightarrow> image \<Rightarrow> error + image" where
  "mask_canvas img canvas =
     (let img_gray = cvtColor_BGR2GRAY canvas;
          img_inv = cvtColor_GRAY2BGR (threshold_BINARY_INV img_gray 50 255)
      in and_then (cv2_bitwise_and img img_inv) (\<lambda>img'. cv2_bitwise_or img' canvas))"

text \<open>Merging header and canvas into the frame (lines 75 to 80).\<close>

definition merge_header_canvas :: "painter \<Rightarrow> image \<Rightarrow> error + image" where
  "merge_header_canvas st img =
     and_then (paste_top_left img (header st)) (\<lambda>img'. mask_canvas img' (img_canvas st))"

text \<open>
  One round of the main loop. It starts from the flipped camera frame, with the landmarks
  already drawn on it by \<open>drawLandmarks\<close>, and the landmark list of
  \<open>getLandmarkPositions\<close>; it ends with the frame that is shown, before the frame rate
  is written on it.
\<close>

definition process_frame ::
  "image list \<Rightarrow> painter \<Rightarrow> image \<Rightarrow> landmark list \<Rightarrow> error + painter \<times> image" where
  "process_frame overlay_list st img landmark_list =
     and_then (handle_gestures overlay_list st img landmark_list) (\<lambda>(st', img').
     and_then (merge_header_canvas st' img') (\<lambda>out. Inr (st', out)))"

text \<open>
  The main loop over the frames that arrive, each with the landmarks found in it. The
  frames that are shown are dropped here; what is kept is the state after the last one.
\<close>

fun main_loop :: "image list \<Rightarrow> painter \<Rightarrow> (image \<times> landmark list) list \<Rightarrow> error + painter" where
  "main_loop overlay_list st [] = Inr st"
| "main_loop overlay_list st (frame # frames) =
     and_then (process_frame overlay_list st (fst frame) (snd frame))
       (\<lambda>(st', out). main_loop overlay_list st' frames)"

text \<open>The last point as a pair; (0, 0) stands for no last point.\<close>

definition last_point :: "painter \<Rightarrow> point" where
  "last_point st = (last_x st, last_y st)"

text \<open>Single pixels of a result: of the canvas, of the frame that is shown, of the header.\<close>

definition canvas_pixel :: "nat \<Rightarrow> nat \<Rightarrow> error + painter \<Rightarrow> error + pixel" where
  "canvas_pixel r c res = map_sum id (\<lambda>st. px (img_canvas st) r c) res"

definition shown_pixel :: "nat \<Rightarrow> nat \<Rightarrow> error + painter \<times> image \<Rightarrow> error + pixel" where
  "shown_pixel r c res = map_sum id (\<lambda>(st, out). px out r c) res"

definition header_pixel :: "nat \<Rightarrow> nat \<Rightarrow> error + painter \<times> image \<Rightarrow> error + pixel" where
  "header_pixel r c res = map_sum id (\<lambda>(st, out). px (header st) r c) res"

section \<open>Example inputs\<close>

text \<open>
  A closed hand: every landmark at (0, 500), so no finger is up. The other hands move
  single landmarks of it.
\<close>

definition fist :: "landmark list" where
  "fist = getLandmarkPositions (Some (replicate 21 (0, 500)))"

text \<open>The index finger alone is up, its tip at the given point (above row 500).\<close>

definition pointing :: "point \<Rightarrow> landmark list" where
  "pointing p = fist[8 := (8, fst p, snd p)]"

text \<open>Index and middle finger are up, both tips at the given point (above row 500).\<close>

definition two_fingers :: "point \<Rightarrow> landmark list" where
  "two_fingers p = fist[8 := (8, fst p, snd p), 12 := (12, fst p, snd p)]"

text \<open>All five fingers are up; the index fingertip is at the given point (above row 500).\<close>

definition open_hand :: "point \<Rightarrow> landmark list" where
  "open_hand p = fist[4 := (4, 10, 500), 8 := (8, fst p, snd p), 12 := (12, fst p, snd p),
                      16 := (16, 0, 400), 20 := (20, 0, 400)]"

definition plain :: "nat \<Rightarrow> nat \<Rightarrow> pixel \<Rightarrow> image" where
  "plain r c v = \<lparr>rows = r, cols = c, px = (\<lambda>_ _. v)\<rparr>"

text \<open>Four toolbar images of 125 rows, and a camera frame, each of a single colour.\<close>

definition toolbars :: "image list" where
  "toolbars = [plain 125 1280 (10, 10, 10), plain 125 1280 (20, 20, 20),
               plain 125 1280 (30, 30, 30), plain 125 1280 (40, 40, 40)]"

definition camera :: image where
  "camera = plain 720 1280 (200, 200, 200)"

definition start :: painter where
  "start = \<lparr>header = toolbars ! 0, draw_color = (0, 0, 255), img_canvas = np_zeros HEIGHT WIDTH,
            last_x = 0, last_y = 0\<rparr>"

section \<open>The finger-state classifier\<close>

lemma item_in_range: "i < length xs \<Longrightarrow> item xs i = Inr (xs ! i)"
  by (simp add: item_def)

lemma and_then_Inr: "and_then (Inr v) f = f v"
  by (simp add: and_then_def)

lemma and_then_Inl: "and_then (Inl e) f = Inl e"
  by (simp add: and_then_def)

lemma thumbUp_21:
  assumes "length lm = 21"
  shows "thumbUp lm =
           Inr (if lm_x (lm ! 4) < lm_x (lm ! 20)
                then (if lm_x (lm ! 4) < lm_x (lm ! 3) then 1 else 0)
                else (if lm_x (lm ! 4) > lm_x (lm ! 3) then 1 else 0))"
  using assms by (simp add: thumbUp_def tipIds_def item_in_range and_then_Inr)

lemma fingerUp_21:
  assumes "length lm = 21" and "i \<in> {1, 2, 3, 4}"
  shows "fingerUp lm i =
           Inr (if lm_y (lm ! (tipIds ! i)) < lm_y (lm ! (tipIds ! i - 2)) then 1 else 0)"
  using assms by (auto simp add: fingerUp_def tipIds_def item_in_range and_then_Inr)

lemma fingersUp_21:
  assumes "length lm = 21"
  shows "fingersUp lm =
           Inr [if lm_x (lm ! 4) < lm_x (lm ! 20)
                then (if lm_x (lm ! 4) < lm_x (lm ! 3) then 1 else 0)
                else (if lm_x (lm ! 4) > lm_x (lm ! 3) then 1 else 0),
                if lm_y (lm ! 8) < lm_y (lm ! 6) then 1 else 0,
                if lm_y (lm ! 12) < lm_y (lm ! 10) then 1 else 0,
                if lm_y (lm ! 16) < lm_y (lm ! 14) then 1 else 0,
                if lm_y (lm ! 20) < lm_y (lm ! 18) then 1 else 0]"
proof -
  have f: "fingerUp lm 1 = Inr (if lm_y (lm ! 8) < lm_y (lm ! 6) then 1 else 0)"
    "fingerUp lm 2 = Inr (if lm_y (lm ! 12) < lm_y (lm ! 10) then 1 else 0)"
    "fingerUp lm 3 = Inr (if lm_y (lm ! 16) < lm_y (lm ! 14) then 1 else 0)"
    "fingerUp lm 4 = Inr (if lm_y (lm ! 20) < lm_y (lm ! 18) then 1 else 0)"
    using assms by (simp_all add: fingerUp_21 tipIds_def)
  show ?thesis
    unfolding fingersUp_def thumbUp_21 [OF assms] and_then_Inr fingersLoop.simps f
    by simp
qed

lemma init_toolbars: "init toolbars = Inr start"
  by (simp add: init_def item_def toolbars_def start_def and_then_def)

lemma length_fist: "length fist = 21"
  by (simp add: fist_def getLandmarkPositions_def)

lemma nth_fist: "i < 21 \<Longrightarrow> fist ! i = (int i, 0, 500)"
  by (simp add: fist_def getLandmarkPositions_def nth_enumerate_eq)

text \<open>
  C6. For a snapshot of 21 landmarks the classifier returns the five bits: the thumb is up
  iff x(4) < x(3) when x(4) < x(20) and iff x(4) > x(3) otherwise; the finger with tip t
  in 8, 12, 16, 20 is up iff y(t) < y(t - 2), strictly.
\<close>

theorem fingersUp_classifies:
  assumes "length lm = 21"
  shows "fingersUp lm =
           Inr [if (if lm_x (lm ! 4) < lm_x (lm ! 20) then lm_x (lm ! 4) < lm_x (lm ! 3)
                    else lm_x (lm ! 4) > lm_x (lm ! 3)) then 1 else 0,
                if lm_y (lm ! 8) < lm_y (lm ! 6) then 1 else 0,
                if lm_y (lm ! 12) < lm_y (lm ! 10) then 1 else 0,
                if lm_y (lm ! 16) < lm_y (lm ! 14) then 1 else 0,
                if lm_y (lm ! 20) < lm_y (lm ! 18) then 1 else 0]"
  using assms by (simp add: fingersUp_21)

theorem fingersUp_classifies_witness:
  "length (open_hand (100, 50)) = 21 \<and> fingersUp (open_hand (100, 50)) = Inr [1, 1, 1, 1, 1] \<and>
   length fist = 21 \<and> fingersUp fist = Inr [0, 0, 0, 0, 0]"
  using fingersUp_classifies [of "open_hand (100, 50)"] fingersUp_classifies [of fist]
  by (simp add: open_hand_def length_fist nth_fist lm_x_def lm_y_def)

section \<open>A frame without a hand\<close>

text \<open>
  C8. When the landmark list is empty the gestures are skipped: stroke canvas, colour,
  header and last point (and the frame itself) come out as they went in.
\<close>

theorem no_hand_changes_nothing:
  "getLandmarkPositions None = [] \<and> handle_gestures overlay_list st img [] = Inr (st, img)"
  by (simp add: handle_gestures_def getLandmarkPositions_def)

section \<open>Gestures of a frame with a hand\<close>

lemma fingersUp_length: "fingersUp lm = Inr fs \<Longrightarrow> length fs = 5"
  by (auto simp add: fingersUp_def and_then_def fingerUp_def thumbUp_def split: sum.splits if_splits)

lemma gestures_21:
  assumes "length lm = 21" and "fingersUp lm = Inr fs"
  shows "handle_gestures ovl st img lm =
           and_then
             (if fs ! 1 \<noteq> 0 \<and> fs ! 2 \<noteq> 0
                then selection_mode ovl st img (snd (lm ! 8)) (snd (lm ! 12))
              else if fs ! 1 \<noteq> 0 \<and> \<not> fs ! 2 \<noteq> 0
                then Inr (draw_mode st img (snd (lm ! 8)))
              else Inr (st, img))
             (\<lambda>(st', img'). Inr (clear_canvas fs st', img'))"
  using assms by (simp add: handle_gestures_def tipIds_def item_in_range and_then_Inr)

lemma not_all_up:
  assumes "length fs = 5" and "fs ! 1 = 0 \<or> fs ! 2 = 0"
  shows "clear_canvas fs st = st"
proof -
  obtain a b c d e where fs: "fs = [a, b, c, d, e]"
    using assms(1) by (auto simp add: length_Suc_conv eval_nat_numeral)
  show ?thesis using assms(2) by (auto simp add: fs clear_canvas_def)
qed

lemma all_up:
  assumes "list_all (\<lambda>x. x \<ge> 1) (fs :: int list)" and "length fs = 5"
  shows "fs ! 1 \<noteq> 0 \<and> fs ! 2 \<noteq> 0"
proof -
  obtain a b c d e where fs: "fs = [a, b, c, d, e]"
    using assms(2) by (auto simp add: length_Suc_conv eval_nat_numeral)
  show ?thesis using assms(1) by (auto simp add: fs)
qed

lemma idle_frame:
  assumes "length lm = 21" and "fingersUp lm = Inr fs" and "fs ! 1 = 0"
  shows "handle_gestures ovl st img lm = Inr (st, img)"
  using assms by (simp add: gestures_21 and_then_Inr not_all_up fingersUp_length)

lemma drawing_frame:
  assumes "length lm = 21" and "fingersUp lm = Inr fs" and "fs ! 1 \<noteq> 0" and "fs ! 2 = 0"
  shows "handle_gestures ovl st img lm = Inr (draw_mode st img (snd (lm ! 8)))"
  using assms
  by (simp add: gestures_21 and_then_Inr not_all_up fingersUp_length split: prod.split)

lemma pick_tool_cases:
  assumes "4 \<le> length ovl"
  shows "pick_tool ovl st x y =
     Inr (if y < 100 \<and> 60 < x \<and> x < 230 then st\<lparr>header := ovl ! 0, draw_color := (0, 0, 255)\<rparr>
          else if y < 100 \<and> 380 < x \<and> x < 550 then st\<lparr>header := ovl ! 1, draw_color := (255, 0, 0)\<rparr>
          else if y < 100 \<and> 700 < x \<and> x < 870 then st\<lparr>header := ovl ! 2, draw_color := (0, 255, 0)\<rparr>
          else if y < 100 \<and> 1030 < x \<and> x < 1250 then st\<lparr>header := ovl ! 3, draw_color := (0, 0, 0)\<rparr>
          else st)"
proof -
  have "item ovl 0 = Inr (ovl ! 0)" "item ovl 1 = Inr (ovl ! 1)"
    "item ovl 2 = Inr (ovl ! 2)" "item ovl 3 = Inr (ovl ! 3)"
    using assms by (auto simp add: item_def)
  then show ?thesis by (simp add: pick_tool_def and_then_Inr)
qed

lemma pick_tool_changes:
  assumes "pick_tool ovl st x y = Inr st'"
    and "draw_color st' \<noteq> draw_color st \<or> header st' \<noteq> header st"
  shows "y < 100 \<and> (60 < x \<and> x < 230 \<or> 380 < x \<and> x < 550 \<or> 700 < x \<and> x < 870 \<or>
                      1030 < x \<and> x < 1250)"
  using assms
  by (auto simp add: pick_tool_def and_then_def split: if_splits sum.splits)

lemma selection_ok:
  assumes "4 \<le> length ovl"
  shows "\<exists>st' img'. selection_mode ovl st img p1 p2 = Inr (st', img') \<and>
           img_canvas st' = img_canvas st \<and> last_x st' = 0 \<and> last_y st' = 0"
  by (cases p1; cases p2) (simp add: selection_mode_def pick_tool_cases [OF assms] and_then_Inr)

lemma length_pointing: "length (pointing p) = 21"
  by (simp add: pointing_def length_fist)

lemma fingers_fist: "fingersUp fist = Inr [0, 0, 0, 0, 0]"
  by (simp add: fingersUp_21 length_fist nth_fist lm_x_def lm_y_def)

lemma fingers_pointing: "snd p < 500 \<Longrightarrow> fingersUp (pointing p) = Inr [0, 1, 0, 0, 0]"
  by (simp add: fingersUp_21 length_pointing)
     (simp add: pointing_def length_fist nth_fist lm_x_def lm_y_def)

lemma tip_pointing: "snd (pointing p ! 8) = p"
  by (simp add: pointing_def length_fist)

lemma length_open_hand: "length (open_hand p) = 21"
  by (simp add: open_hand_def length_fist)

lemma fingers_open_hand: "snd p < 500 \<Longrightarrow> fingersUp (open_hand p) = Inr [1, 1, 1, 1, 1]"
  by (simp add: fingersUp_21 length_open_hand)
     (simp add: open_hand_def length_fist nth_fist lm_x_def lm_y_def)

lemma rows_paint: "rows (paint img f v) = rows img"
  by (simp add: paint_def)

lemma cols_paint: "cols (paint img f v) = cols img"
  by (simp add: paint_def)

lemma shape_line: "rows (cv2_line img p q v t) = rows img" "cols (cv2_line img p q v t) = cols img"
  by (simp_all add: cv2_line_def rows_paint cols_paint)

lemma shape_circle: "rows (cv2_circle_filled img p r v) = rows img"
  "cols (cv2_circle_filled img p r v) = cols img"
  by (simp_all add: cv2_circle_filled_def rows_paint cols_paint)

lemma shape_rectangle: "rows (cv2_rectangle_filled img p q v) = rows img"
  "cols (cv2_rectangle_filled img p q v) = cols img"
  by (simp_all add: cv2_rectangle_filled_def rows_paint cols_paint)

lemma draw_mode_eq:
  "draw_mode st img (x, y) =
     (st\<lparr>img_canvas := cv2_line (img_canvas st)
            (if last_x st = 0 \<and> last_y st = 0 then (x, y) else (last_x st, last_y st)) (x, y)
            (draw_color st) 20,
         last_x := x, last_y := y\<rparr>,
      cv2_circle_filled img (x, y) 20 (draw_color st))"
  by (simp add: draw_mode_def POINTER_THICKNESS_def Let_def)

text \<open>
  The merge of a round returns when the header fits into the frame and the frame has the
  shape of the canvas; the loop then goes on with the state the gestures left.
\<close>

lemma merge_ok:
  assumes "rows (header st) \<le> rows img" and "cols (header st) \<le> cols img"
    and "rows (img_canvas st) = rows img" and "cols (img_canvas st) = cols img"
  shows "\<exists>out. merge_header_canvas st img = Inr out"
  using assms
  by (simp add: merge_header_canvas_def paste_top_left_def mask_canvas_def cv2_bitwise_and_def
      cv2_bitwise_or_def and_then_Inr cvtColor_GRAY2BGR_def threshold_BINARY_INV_def
      cvtColor_BGR2GRAY_def min_absorb1 Let_def)

lemma main_loop_Cons:
  assumes "handle_gestures ovl st img lm = Inr (st', img')"
    and "rows (header st') \<le> rows img'" and "cols (header st') \<le> cols img'"
    and "rows (img_canvas st') = rows img'" and "cols (img_canvas st') = cols img'"
  shows "main_loop ovl st ((img, lm) # frames) = main_loop ovl st' frames"
proof -
  obtain out where "merge_header_canvas st' img' = Inr out"
    using merge_ok [OF assms(2-5)] by blast
  then show ?thesis
    using assms(1) by (simp add: process_frame_def and_then_Inr)
qed

lemma on_thick_line_dot: "on_thick_line p p t p"
  by (cases p) (simp add: on_thick_line_def)

lemma px_paint:
  "px (paint img f v) r c = (if r < rows img \<and> c < cols img \<and> f (int c, int r) then v else px img r c)"
  by (simp add: paint_def)

lemma px_line:
  "px (cv2_line img p q v t) r c =
     (if r < rows img \<and> c < cols img \<and> on_thick_line p q t (int c, int r) then v else px img r c)"
  by (simp add: cv2_line_def px_paint)

section \<open>An idle frame\<close>

text \<open>
  C1, as amended. On a frame with a hand of 21 landmarks whose index finger is down,
  neither branch runs and the canvas is not cleared: the last point stays what it was,
  and so do canvas, colour, header and frame.
\<close>

theorem idle_frame_changes_nothing:
  assumes "length lm = 21" and "fingersUp lm = Inr fs" and "fs ! 1 = 0"
  shows "handle_gestures ovl st img lm = Inr (st, img)"
  using assms by (rule idle_frame)

theorem idle_frame_changes_nothing_witness:
  "length fist = 21 \<and> fingersUp fist = Inr [0, 0, 0, 0, 0] \<and> [0, 0, 0, 0, 0 :: int] ! 1 = 0 \<and>
   handle_gestures toolbars (start\<lparr>last_x := 100, last_y := 100\<rparr>) camera fist
     = Inr (start\<lparr>last_x := 100, last_y := 100\<rparr>, camera)"
  using idle_frame_changes_nothing
          [of fist "[0, 0, 0, 0, 0]" toolbars "start\<lparr>last_x := 100, last_y := 100\<rparr>" camera]
  by (simp add: length_fist fingers_fist)

text \<open>
  C1 as stated fails: after a drawing frame with the index fingertip at (100, 100) and
  then a frame with a closed hand, the last point is still (100, 100).
\<close>

theorem idle_frame_keeps_last_point_counterexample:
  "map_sum id last_point
     (main_loop toolbars start [(camera, pointing (100, 100)), (camera, fist)]) = Inr (100, 100) \<and>
   fingersUp fist = Inr [0, 0, 0, 0, 0]"
proof -
  define st1 where "st1 = fst (draw_mode start camera (100, 100))"
  have shape: "rows (header st1) = 125" "cols (header st1) = 1280"
    "rows (img_canvas st1) = 720" "cols (img_canvas st1) = 1280" "last_point st1 = (100, 100)"
    by (simp_all add: st1_def draw_mode_eq start_def toolbars_def plain_def shape_line np_zeros_def
        HEIGHT_def WIDTH_def last_point_def)
  have "handle_gestures toolbars start camera (pointing (100, 100))
          = Inr (st1, cv2_circle_filled camera (100, 100) 20 (0, 0, 255))"
    using drawing_frame [OF length_pointing fingers_pointing, of "(100, 100)" toolbars start camera]
    by (simp add: tip_pointing st1_def draw_mode_eq start_def)
  then have 1: "main_loop toolbars start [(camera, pointing (100, 100)), (camera, fist)]
     = main_loop toolbars st1 [(camera, fist)]"
    by (rule main_loop_Cons) (simp_all add: shape shape_circle camera_def plain_def)
  have "handle_gestures toolbars st1 camera fist = Inr (st1, camera)"
    using idle_frame [OF length_fist fingers_fist] by simp
  then have 2: "main_loop toolbars st1 [(camera, fist)] = main_loop toolbars st1 []"
    by (rule main_loop_Cons) (simp_all add: shape camera_def plain_def)
  show ?thesis
    unfolding 1 2 by (simp add: shape fingers_fist)
qed

section \<open>All five fingers up\<close>

text \<open>
  C2. On a frame with a hand of 21 landmarks, all five fingers up and four toolbar images
  loaded, the gestures return, every pixel of the stroke canvas is zero afterwards and the
  last point is (0, 0), wherever the fingertips are.
\<close>

theorem all_fingers_up_clears:
  assumes "length lm = 21" and "4 \<le> length ovl" and "fingersUp lm = Inr fs"
    and "list_all (\<lambda>x. x \<ge> 1) fs"
  shows "\<exists>st' img'. handle_gestures ovl st img lm = Inr (st', img') \<and>
           img_canvas st' = np_zeros (rows (img_canvas st)) (cols (img_canvas st)) \<and>
           (\<forall>r c. px (img_canvas st') r c = (0, 0, 0)) \<and> last_point st' = (0, 0)"
proof -
  have up: "fs ! 1 \<noteq> 0 \<and> fs ! 2 \<noteq> 0"
    by (rule all_up [OF assms(4) fingersUp_length [OF assms(3)]])
  obtain st1 img1
    where sel: "selection_mode ovl st img (snd (lm ! 8)) (snd (lm ! 12)) = Inr (st1, img1)"
      and keep: "img_canvas st1 = img_canvas st" "last_x st1 = 0" "last_y st1 = 0"
    using selection_ok [OF assms(2)] by blast
  have "handle_gestures ovl st img lm = Inr (clear_canvas fs st1, img1)"
    using up sel by (simp add: gestures_21 [OF assms(1,3)] and_then_Inr)
  moreover have "clear_canvas fs st1 =
      st1\<lparr>img_canvas := np_zeros (rows (img_canvas st)) (cols (img_canvas st))\<rparr>"
    using assms(4) keep by (simp add: clear_canvas_def)
  ultimately show ?thesis
    using keep by (simp add: last_point_def np_zeros_def)
qed

theorem all_fingers_up_clears_witness:
  "length (open_hand (100, 50)) = 21 \<and> 4 \<le> length toolbars \<and>
   fingersUp (open_hand (100, 50)) = Inr [1, 1, 1, 1, 1] \<and>
   list_all (\<lambda>x. x \<ge> 1) [1, 1, 1, 1, 1 :: int] \<and>
   (\<exists>st' img'. handle_gestures toolbars (fst (draw_mode start camera (300, 300))) camera
                  (open_hand (100, 50)) = Inr (st', img') \<and>
      img_canvas st' = np_zeros 720 1280 \<and>
      (\<forall>r c. px (img_canvas st') r c = (0, 0, 0)) \<and> last_point st' = (0, 0))"
  using all_fingers_up_clears
          [of "open_hand (100, 50)" toolbars "[1, 1, 1, 1, 1]"
              "fst (draw_mode start camera (300, 300))" camera]
  by (simp add: length_open_hand fingers_open_hand toolbars_def draw_mode_def start_def
      shape_line np_zeros_def HEIGHT_def WIDTH_def)

section \<open>Compositing\<close>

lemma and_255: "(x :: u8) AND 255 = x"
proof -
  have "(255 :: u8) = - 1" by simp
  then show ?thesis by (simp only: and.right_neutral)
qed

lemma pixel_and_white: "pixel_and p (255, 255, 255) = p"
  by (cases p) (simp add: pixel_and_def and_255)

lemma pixel_or_black: "pixel_or p (0, 0, 0) = p"
  by (cases p) (simp add: pixel_or_def)

lemma gray_of_black: "gray_of (0, 0, 0) = 0"
  by (simp add: gray_of_def)

text \<open>
  C9. The mask computation on a canvas that is all zero, of the shape of the frame,
  returns the frame as it came.
\<close>

theorem mask_of_blank_canvas_is_identity:
  "mask_canvas img (np_zeros (rows img) (cols img)) = Inr img"
  by (simp add: mask_canvas_def np_zeros_def cvtColor_BGR2GRAY_def threshold_BINARY_INV_def
      cvtColor_GRAY2BGR_def cv2_bitwise_and_def cv2_bitwise_or_def and_then_Inr gray_of_black
      pixel_and_white pixel_or_black)

section \<open>The last point and its sentinel\<close>

text \<open>
  C10. The absence of a last point is stored as (0, 0), which is also a pixel. On a
  drawing frame (21 landmarks, index up, middle down) the last point becomes the index
  fingertip, so a fingertip at pixel (0, 0) stores (0, 0) again; and whenever the stored
  last point is (0, 0) the frame draws the line from the fingertip to itself (line 68
  after line 67): every pixel outside that dot keeps its value, so nothing connects to
  the prior point.
\<close>

theorem null_last_point_starts_new_stroke:
  assumes "length lm = 21" and "fingersUp lm = Inr fs" and "fs ! 1 \<noteq> 0" and "fs ! 2 = 0"
  shows "\<exists>st' img'. handle_gestures ovl st img lm = Inr (st', img') \<and>
           last_point st' = snd (lm ! 8) \<and>
           (last_point st = (0, 0) \<longrightarrow>
              img_canvas st' = cv2_line (img_canvas st) (snd (lm ! 8)) (snd (lm ! 8)) (draw_color st) 20 \<and>
              (\<forall>r c. \<not> on_thick_line (snd (lm ! 8)) (snd (lm ! 8)) 20 (int c, int r) \<longrightarrow>
                     px (img_canvas st') r c = px (img_canvas st) r c))"
proof -
  obtain x y where p: "snd (lm ! 8) = (x, y)" by (cases "snd (lm ! 8)")
  show ?thesis
    unfolding drawing_frame [OF assms] p draw_mode_eq
    by (simp add: last_point_def px_line)
qed

theorem null_last_point_starts_new_stroke_witness:
  "length (pointing (300, 300)) = 21 \<and> fingersUp (pointing (300, 300)) = Inr [0, 1, 0, 0, 0] \<and>
   [0, 1, 0, 0, 0 :: int] ! 1 \<noteq> 0 \<and> [0, 1, 0, 0, 0 :: int] ! 2 = 0 \<and>
   last_point (fst (draw_mode start camera (0, 0))) = (0, 0) \<and>
   \<not> on_thick_line (300, 300) (300, 300) 20 (int 150, int 150) \<and>
   on_thick_line (0, 0) (300, 300) 20 (int 150, int 150) \<and>
   (\<exists>st' img'. handle_gestures toolbars (fst (draw_mode start camera (0, 0))) camera (pointing (300, 300))
        = Inr (st', img') \<and> last_point st' = (300, 300) \<and>
      px (img_canvas st') 150 150 = (0, 0, 0) \<and> px (img_canvas st') 300 300 = (0, 0, 255))"
proof -
  define st0 where "st0 = fst (draw_mode start camera (0, 0))"
  have h: "length (pointing (300, 300)) = 21" "fingersUp (pointing (300, 300)) = Inr [0, 1, 0, 0, 0]"
    "[0, 1, 0, 0, 0 :: int] ! 1 \<noteq> 0" "[0, 1, 0, 0, 0 :: int] ! 2 = 0"
    by (simp_all add: length_pointing fingers_pointing)
  have null: "last_point st0 = (0, 0)" and col: "draw_color st0 = (0, 0, 255)"
    and old: "px (img_canvas st0) 150 150 = (0, 0, 0)"
    and shape: "rows (img_canvas st0) = 720" "cols (img_canvas st0) = 1280"
    by (simp_all add: st0_def draw_mode_eq last_point_def start_def px_line shape_line np_zeros_def
        HEIGHT_def WIDTH_def on_thick_line_def)
  have off: "\<not> on_thick_line (300, 300) (300, 300) 20 (int 150, int 150)"
    and on: "on_thick_line (0, 0) (300, 300) 20 (int 150, int 150)"
    by (simp_all add: on_thick_line_def)
  obtain st' img' where
    run: "handle_gestures toolbars st0 camera (pointing (300, 300)) = Inr (st', img')"
    and lp: "last_point st' = (300, 300)"
    and canvas: "img_canvas st' = cv2_line (img_canvas st0) (300, 300) (300, 300) (draw_color st0) 20"
    and rest: "\<forall>r c. \<not> on_thick_line (300, 300) (300, 300) 20 (int c, int r) \<longrightarrow>
                 px (img_canvas st') r c = px (img_canvas st0) r c"
    using null_last_point_starts_new_stroke [OF h, of toolbars st0 camera] null by (auto simp add: tip_pointing)
  have "px (img_canvas st') 150 150 = (0, 0, 0)"
    using rest off old by simp
  moreover have "px (img_canvas st') 300 300 = (0, 0, 255)"
    by (simp add: canvas px_line shape col on_thick_line_def)
  ultimately show ?thesis
    using h null off on run lp unfolding st0_def by blast
qed

section \<open>Continuing a stroke\<close>

text \<open>
  C3 as stated fails twice. From the start state (no last point) the draw branch at
  (100, 100) turns the canvas pixel there from zero to red: line 68 runs on every drawing
  frame, also right after line 67. And after a first call at the point (0, 0) the stored
  last point is (0, 0) again, so the next call at (300, 300) draws no segment between the
  two: pixel (150, 150), on that segment, stays zero.
\<close>

theorem first_stroke_call_paints_counterexample:
  "last_point start = (0, 0) \<and>
   px (img_canvas start) 100 100 = (0, 0, 0) \<and>
   px (img_canvas (fst (draw_mode start camera (100, 100)))) 100 100 = (0, 0, 255) \<and>
   last_point (fst (draw_mode start camera (0, 0))) = (0, 0) \<and>
   on_thick_line (0, 0) (300, 300) 20 (150, 150) \<and>
   px (cv2_line (img_canvas (fst (draw_mode start camera (0, 0)))) (0, 0) (300, 300) (0, 0, 255) 20)
      150 150 = (0, 0, 255) \<and>
   px (img_canvas (fst (draw_mode (fst (draw_mode start camera (0, 0))) camera (300, 300))))
      150 150 = (0, 0, 0)"
  by (simp add: draw_mode_eq last_point_def start_def px_line shape_line np_zeros_def
        HEIGHT_def WIDTH_def on_thick_line_def)

text \<open>
  C3, as amended. With no last point stored, the draw branch at a point p draws the line
  from p to itself, a dot of the pen's thickness in the active colour that colours the
  pixel at p when it lies on the canvas, and stores p as the last point. The next call, at
  q, draws one line from p to q on top and stores q, provided p is not (0, 0).
\<close>

theorem first_call_dot_next_call_segment:
  assumes "last_point st = (0, 0)" and "p \<noteq> (0, 0)"
  shows "img_canvas (fst (draw_mode st img p)) = cv2_line (img_canvas st) p p (draw_color st) 20 \<and>
         last_point (fst (draw_mode st img p)) = p \<and>
         (r < rows (img_canvas st) \<and> c < cols (img_canvas st) \<and> p = (int c, int r) \<longrightarrow>
            px (img_canvas (fst (draw_mode st img p))) r c = draw_color st) \<and>
         img_canvas (fst (draw_mode (fst (draw_mode st img p)) img' q)) =
           cv2_line (cv2_line (img_canvas st) p p (draw_color st) 20) p q (draw_color st) 20 \<and>
         last_point (fst (draw_mode (fst (draw_mode st img p)) img' q)) = q"
proof -
  obtain x y where p: "p = (x, y)" by (cases p)
  obtain x' y' where q: "q = (x', y')" by (cases q)
  have "x \<noteq> 0 \<or> y \<noteq> 0" using assms(2) p by simp
  then show ?thesis
    using assms(1) by (auto simp add: p q draw_mode_eq last_point_def px_line on_thick_line_def)
qed

theorem first_call_dot_next_call_segment_witness:
  "last_point start = (0, 0) \<and> (100, 100) \<noteq> (0 :: int, 0 :: int) \<and>
   100 < rows (img_canvas start) \<and> 100 < cols (img_canvas start) \<and>
   px (img_canvas (fst (draw_mode start camera (100, 100)))) 100 100 = (0, 0, 255) \<and>
   last_point (fst (draw_mode start camera (100, 100))) = (100, 100) \<and>
   img_canvas (fst (draw_mode (fst (draw_mode start camera (100, 100))) camera (110, 105))) =
     cv2_line (cv2_line (img_canvas start) (100, 100) (100, 100) (0, 0, 255) 20)
       (100, 100) (110, 105) (0, 0, 255) 20 \<and>
   last_point (fst (draw_mode (fst (draw_mode start camera (100, 100))) camera (110, 105))) = (110, 105)"
proof -
  have h: "last_point start = (0, 0)" "(100, 100) \<noteq> (0 :: int, 0 :: int)"
    and b: "100 < rows (img_canvas start)" "100 < cols (img_canvas start)"
    and col: "draw_color start = (0, 0, 255)"
    by (simp_all add: last_point_def start_def np_zeros_def HEIGHT_def WIDTH_def)
  have "(100 :: int, 100 :: int) = (int 100, int 100)" by simp
  with first_call_dot_next_call_segment [OF h, where r = 100 and c = 100 and img = camera and img' = camera and q = "(110, 105)"]
  show ?thesis
    unfolding col using h b by blast
qed

section \<open>Picking a tool\<close>

lemma draw_mode_keeps_tool:
  "draw_color (fst (draw_mode st img p)) = draw_color st \<and> header (fst (draw_mode st img p)) = header st"
  by (cases p) (simp add: draw_mode_eq)

lemma clear_canvas_keeps_tool:
  "draw_color (clear_canvas fs st) = draw_color st \<and> header (clear_canvas fs st) = header st"
  by (simp add: clear_canvas_def)

lemma selection_changes:
  assumes "selection_mode ovl st img p1 p2 = Inr (st1, img1)"
    and "draw_color st1 \<noteq> draw_color st \<or> header st1 \<noteq> header st"
  shows "snd p1 < 100 \<and> (60 < fst p1 \<and> fst p1 < 230 \<or> 380 < fst p1 \<and> fst p1 < 550 \<or>
           700 < fst p1 \<and> fst p1 < 870 \<or> 1030 < fst p1 \<and> fst p1 < 1250)"
proof -
  obtain x1 y1 x2 y2 where p: "p1 = (x1, y1)" "p2 = (x2, y2)"
    by (cases p1; cases p2) blast
  from assms(1) obtain st' where pick: "pick_tool ovl (st\<lparr>last_x := 0, last_y := 0\<rparr>) x1 y1 = Inr st'"
    and st1: "st1 = st'"
    by (auto simp add: selection_mode_def p and_then_def split: sum.splits)
  from pick_tool_changes [OF pick] assms(2) show ?thesis
    by (simp add: p st1)
qed

lemma tool_change_needs_selection:
  assumes "handle_gestures ovl st img lm = Inr (st', img')"
    and "draw_color st' \<noteq> draw_color st \<or> header st' \<noteq> header st"
  shows "\<exists>fs l. fingersUp lm = Inr fs \<and> fs ! 1 \<noteq> 0 \<and> fs ! 2 \<noteq> 0 \<and> item lm 8 = Inr l \<and>
           lm_y l < 100 \<and> (60 < lm_x l \<and> lm_x l < 230 \<or> 380 < lm_x l \<and> lm_x l < 550 \<or>
             700 < lm_x l \<and> lm_x l < 870 \<or> 1030 < lm_x l \<and> lm_x l < 1250)"
proof -
  have ne: "0 < length lm"
    using assms by (auto simp add: handle_gestures_def split: if_splits)
  from assms(1) ne obtain fs l1 l2 st1 img1 where
    fs: "fingersUp lm = Inr fs" and l1: "item lm 8 = Inr l1" and l2: "item lm 12 = Inr l2"
    and br: "(if fs ! 1 \<noteq> 0 \<and> fs ! 2 \<noteq> 0
               then selection_mode ovl st img (snd l1) (snd l2)
              else if fs ! 1 \<noteq> 0 \<and> \<not> fs ! 2 \<noteq> 0
               then Inr (draw_mode st img (snd l1))
              else Inr (st, img)) = Inr (st1, img1)"
    and fin: "st' = clear_canvas fs st1"
    by (auto simp add: handle_gestures_def tipIds_def and_then_def split: sum.splits)
  have ch: "draw_color st1 \<noteq> draw_color st \<or> header st1 \<noteq> header st"
    using assms(2) by (simp add: fin clear_canvas_keeps_tool)
  have sel: "fs ! 1 \<noteq> 0 \<and> fs ! 2 \<noteq> 0"
  proof (rule ccontr)
    assume n: "\<not> (fs ! 1 \<noteq> 0 \<and> fs ! 2 \<noteq> 0)"
    show False
    proof (cases "fs ! 1 \<noteq> 0")
      case True
      with n br have "st1 = fst (draw_mode st img (snd l1))" by (auto split: if_splits)
      with ch show False by (simp add: draw_mode_keeps_tool)
    next
      case False
      with br have "st1 = st" by simp
      with ch show False by simp
    qed
  qed
  with br have "selection_mode ovl st img (snd l1) (snd l2) = Inr (st1, img1)" by simp
  from selection_changes [OF this ch] fs sel l1 show ?thesis
    by (auto simp add: lm_x_def lm_y_def)
qed

lemma select_region:
  assumes "length lm = 21" and "fingersUp lm = Inr fs" and "fs ! 1 \<noteq> 0" and "fs ! 2 \<noteq> 0"
     and "k < length ovl" and "pick_tool ovl (st\<lparr>last_x := 0, last_y := 0\<rparr>) (lm_x (lm ! 8)) (lm_y (lm ! 8)) = Inr st1"
  shows "\<exists>st' img'. handle_gestures ovl st img lm = Inr (st', img') \<and>
           header st' = header st1 \<and> draw_color st' = draw_color st1"
proof -
  obtain i x1 y1 where l1: "lm ! 8 = (i, x1, y1)" by (cases "lm ! 8")
  obtain j x2 y2 where l2: "lm ! 12 = (j, x2, y2)" by (cases "lm ! 12")
  show ?thesis
    using assms(3,4,6)
    by (simp add: gestures_21 [OF assms(1,2)] l1 l2 selection_mode_def and_then_Inr
        clear_canvas_keeps_tool lm_x_def lm_y_def)
qed

lemma length_two_fingers: "length (two_fingers p) = 21"
  by (simp add: two_fingers_def length_fist)

lemma fingers_two_fingers: "snd p < 500 \<Longrightarrow> fingersUp (two_fingers p) = Inr [0, 1, 1, 0, 0]"
  by (simp add: fingersUp_21 length_two_fingers)
     (simp add: two_fingers_def length_fist nth_fist lm_x_def lm_y_def)

lemma tips_two_fingers: "two_fingers p ! 8 = (8, fst p, snd p)" "two_fingers p ! 12 = (12, fst p, snd p)"
  by (simp_all add: two_fingers_def length_fist)

text \<open>
  C7. When the gestures of a frame return with another colour or another header than
  before, the frame was in selection mode (index and middle finger up) and the index
  fingertip lay above row 100 inside one of the four column ranges. In selection mode
  with the index fingertip at (100, 50) the header becomes toolbar image 0 and the colour
  (0, 0, 255); at (400, 50) they become toolbar image 1 and (255, 0, 0).
\<close>

theorem tool_changes_only_by_toolbar_selection:
  "(handle_gestures ovl st img lm = Inr (st', img') \<and>
      (draw_color st' \<noteq> draw_color st \<or> header st' \<noteq> header st) \<longrightarrow>
      (\<exists>fs l. fingersUp lm = Inr fs \<and> fs ! 1 \<noteq> 0 \<and> fs ! 2 \<noteq> 0 \<and> item lm 8 = Inr l \<and>
         lm_y l < 100 \<and> (60 < lm_x l \<and> lm_x l < 230 \<or> 380 < lm_x l \<and> lm_x l < 550 \<or>
           700 < lm_x l \<and> lm_x l < 870 \<or> 1030 < lm_x l \<and> lm_x l < 1250))) \<and>
   (length lm = 21 \<and> fingersUp lm = Inr fs \<and> fs ! 1 \<noteq> 0 \<and> fs ! 2 \<noteq> 0 \<and>
      snd (lm ! 8) = (100, 50) \<and> 0 < length ovl \<longrightarrow>
      (\<exists>st2 img2. handle_gestures ovl st img lm = Inr (st2, img2) \<and>
         header st2 = ovl ! 0 \<and> draw_color st2 = (0, 0, 255))) \<and>
   (length lm = 21 \<and> fingersUp lm = Inr fs \<and> fs ! 1 \<noteq> 0 \<and> fs ! 2 \<noteq> 0 \<and>
      snd (lm ! 8) = (400, 50) \<and> 1 < length ovl \<longrightarrow>
      (\<exists>st2 img2. handle_gestures ovl st img lm = Inr (st2, img2) \<and>
         header st2 = ovl ! 1 \<and> draw_color st2 = (255, 0, 0)))"
proof (intro conjI impI)
  assume "handle_gestures ovl st img lm = Inr (st', img') \<and>
      (draw_color st' \<noteq> draw_color st \<or> header st' \<noteq> header st)"
  then show "\<exists>fs l. fingersUp lm = Inr fs \<and> fs ! 1 \<noteq> 0 \<and> fs ! 2 \<noteq> 0 \<and> item lm 8 = Inr l \<and>
         lm_y l < 100 \<and> (60 < lm_x l \<and> lm_x l < 230 \<or> 380 < lm_x l \<and> lm_x l < 550 \<or>
           700 < lm_x l \<and> lm_x l < 870 \<or> 1030 < lm_x l \<and> lm_x l < 1250)"
    using tool_change_needs_selection by blast
next
  assume a: "length lm = 21 \<and> fingersUp lm = Inr fs \<and> fs ! 1 \<noteq> 0 \<and> fs ! 2 \<noteq> 0 \<and>
      snd (lm ! 8) = (100, 50) \<and> 0 < length ovl"
  then have "pick_tool ovl (st\<lparr>last_x := 0, last_y := 0\<rparr>) (lm_x (lm ! 8)) (lm_y (lm ! 8))
               = Inr (st\<lparr>last_x := 0, last_y := 0, header := ovl ! 0, draw_color := (0, 0, 255)\<rparr>)"
    by (simp add: pick_tool_def lm_x_def lm_y_def item_def and_then_Inr)
  from select_region [OF _ _ _ _ _ this, of fs 0 img] a
  show "\<exists>st2 img2. handle_gestures ovl st img lm = Inr (st2, img2) \<and>
         header st2 = ovl ! 0 \<and> draw_color st2 = (0, 0, 255)"
    by simp
next
  assume a: "length lm = 21 \<and> fingersUp lm = Inr fs \<and> fs ! 1 \<noteq> 0 \<and> fs ! 2 \<noteq> 0 \<and>
      snd (lm ! 8) = (400, 50) \<and> 1 < length ovl"
  then have "pick_tool ovl (st\<lparr>last_x := 0, last_y := 0\<rparr>) (lm_x (lm ! 8)) (lm_y (lm ! 8))
               = Inr (st\<lparr>last_x := 0, last_y := 0, header := ovl ! 1, draw_color := (255, 0, 0)\<rparr>)"
    by (simp add: pick_tool_def lm_x_def lm_y_def item_def and_then_Inr)
  from select_region [OF _ _ _ _ _ this, of fs 1 img] a
  show "\<exists>st2 img2. handle_gestures ovl st img lm = Inr (st2, img2) \<and>
         header st2 = ovl ! 1 \<and> draw_color st2 = (255, 0, 0)"
    by simp
qed

theorem tool_changes_only_by_toolbar_selection_witness:
  "handle_gestures toolbars start camera (two_fingers (400, 50))
     = Inr (start\<lparr>header := toolbars ! 1, draw_color := (255, 0, 0)\<rparr>,
            cv2_rectangle_filled camera (400, 25) (400, 75) (255, 0, 0)) \<and>
   draw_color (start\<lparr>header := toolbars ! 1, draw_color := (255, 0, 0)\<rparr>) \<noteq> draw_color start \<and>
   fingersUp (two_fingers (400, 50)) = Inr [0, 1, 1, 0, 0] \<and>
   item (two_fingers (400, 50)) 8 = Inr (8, 400, 50) \<and>
   length (two_fingers (100, 50)) = 21 \<and> fingersUp (two_fingers (100, 50)) = Inr [0, 1, 1, 0, 0] \<and>
   [0, 1, 1, 0, 0 :: int] ! 1 \<noteq> 0 \<and> [0, 1, 1, 0, 0 :: int] ! 2 \<noteq> 0 \<and>
   snd (two_fingers (100, 50) ! 8) = (100, 50) \<and> 0 < length toolbars \<and>
   (\<exists>st2 img2. handle_gestures toolbars (start\<lparr>header := toolbars ! 1, draw_color := (255, 0, 0)\<rparr>)
        camera (two_fingers (100, 50)) = Inr (st2, img2) \<and>
      header st2 = toolbars ! 0 \<and> draw_color st2 = (0, 0, 255)) \<and>
   length (two_fingers (400, 50)) = 21 \<and> snd (two_fingers (400, 50) ! 8) = (400, 50) \<and>
   1 < length toolbars \<and>
   (\<exists>st2 img2. handle_gestures toolbars start camera (two_fingers (400, 50)) = Inr (st2, img2) \<and>
      header st2 = toolbars ! 1 \<and> draw_color st2 = (255, 0, 0))"
proof -
  have f: "fingersUp (two_fingers (400, 50)) = Inr [0, 1, 1, 0, 0]"
    "fingersUp (two_fingers (100, 50)) = Inr [0, 1, 1, 0, 0]"
    by (simp_all add: fingers_two_fingers)
  have run: "handle_gestures toolbars start camera (two_fingers (400, 50))
     = Inr (start\<lparr>header := toolbars ! 1, draw_color := (255, 0, 0)\<rparr>,
            cv2_rectangle_filled camera (400, 25) (400, 75) (255, 0, 0))"
    by (simp add: gestures_21 [OF length_two_fingers f(1)] tips_two_fingers selection_mode_def
        pick_tool_cases toolbars_def and_then_Inr clear_canvas_def start_def)
  have ne: "draw_color (start\<lparr>header := toolbars ! 1, draw_color := (255, 0, 0)\<rparr>) \<noteq> draw_color start"
    by (simp add: start_def)
  have it: "item (two_fingers (400, 50)) 8 = Inr (8, 400, 50)"
    by (simp add: item_def length_two_fingers tips_two_fingers)
  have hyp: "length (two_fingers (100, 50)) = 21" "[0, 1, 1, 0, 0 :: int] ! 1 \<noteq> 0"
    "[0, 1, 1, 0, 0 :: int] ! 2 \<noteq> 0" "snd (two_fingers (100, 50) ! 8) = (100, 50)"
    "0 < length toolbars" "length (two_fingers (400, 50)) = 21"
    "snd (two_fingers (400, 50) ! 8) = (400, 50)" "1 < length toolbars"
    by (simp_all add: length_two_fingers tips_two_fingers toolbars_def)
  note t1 = tool_changes_only_by_toolbar_selection [of toolbars "start\<lparr>header := toolbars ! 1, draw_color := (255, 0, 0)\<rparr>" camera
      "two_fingers (100, 50)" _ _ "[0, 1, 1, 0, 0]"]
  note t2 = tool_changes_only_by_toolbar_selection [of toolbars start camera "two_fingers (400, 50)"
      "start\<lparr>header := toolbars ! 1, draw_color := (255, 0, 0)\<rparr>"
      "cv2_rectangle_filled camera (400, 25) (400, 75) (255, 0, 0)" "[0, 1, 1, 0, 0]"]
  show ?thesis
    using t1 t2 f run ne it hyp by blast
qed

section \<open>Header and canvas in the frame that is shown\<close>

lemma pixel_and_black: "pixel_and p (0, 0, 0) = (0, 0, 0)"
  by (cases p) (simp add: pixel_and_def)

lemma pixel_or_black_left: "pixel_or (0, 0, 0) p = p"
  by (cases p) (simp add: pixel_or_def)

lemma merge_pixel:
  assumes "rows (header st) \<le> rows img" and "cols (header st) \<le> cols img"
    and "rows (img_canvas st) = rows img" and "cols (img_canvas st) = cols img"
  shows "\<exists>out. merge_header_canvas st img = Inr out \<and>
           (\<forall>r c. r < rows (header st) \<and> c < cols (header st) \<longrightarrow>
              px out r c =
                pixel_or (pixel_and (px (header st) r c)
                            (if 50 < gray_of (px (img_canvas st) r c) then (0, 0, 0)
                             else (255, 255, 255)))
                         (px (img_canvas st) r c))"
  using assms
  by (auto simp add: merge_header_canvas_def paste_top_left_def mask_canvas_def cv2_bitwise_and_def
      cv2_bitwise_or_def and_then_Inr cvtColor_GRAY2BGR_def threshold_BINARY_INV_def
      cvtColor_BGR2GRAY_def min_absorb1 Let_def)

lemma gray_of_red: "gray_of (0, 0, 255) = 76"
  by (simp add: gray_of_def)

text \<open>
  C4 as stated fails: the header is pasted at line 75, before the mask computation of
  lines 76 to 80. After one drawing frame with the index fingertip at (100, 50), inside
  the header, the frame that is shown has the red canvas pixel at row 50, column 100,
  where the header image has (10, 10, 10).
\<close>

theorem canvas_shows_through_header_counterexample:
  "shown_pixel 50 100 (process_frame toolbars start camera (pointing (100, 50))) = Inr (0, 0, 255) \<and>
   header_pixel 50 100 (process_frame toolbars start camera (pointing (100, 50))) = Inr (10, 10, 10)"
proof -
  have g: "handle_gestures toolbars start camera (pointing (100, 50))
          = Inr (draw_mode start camera (100, 50))"
    using drawing_frame [OF length_pointing fingers_pointing, of "(100, 50)" toolbars start camera]
    by (simp add: tip_pointing)
  show ?thesis
    unfolding process_frame_def g and_then_Inr draw_mode_eq
    by (simp add: shown_pixel_def header_pixel_def merge_header_canvas_def paste_top_left_def
        mask_canvas_def cv2_bitwise_and_def cv2_bitwise_or_def and_then_Inr cvtColor_GRAY2BGR_def
        threshold_BINARY_INV_def cvtColor_BGR2GRAY_def start_def toolbars_def plain_def
        camera_def np_zeros_def HEIGHT_def WIDTH_def shape_line shape_circle px_line
        on_thick_line_def gray_of_red pixel_and_def pixel_or_def)
qed

text \<open>
  C4, as amended. When the header fits into the frame and the frame has the shape of the
  canvas, the merge returns, and inside the header rectangle the frame that is shown has
  the header's pixel wherever the canvas pixel is zero, and the canvas pixel wherever the
  canvas is painted with a grey value above 50: the canvas is laid over the header.
\<close>

theorem header_then_canvas_on_top:
  assumes "rows (header st) \<le> rows img" and "cols (header st) \<le> cols img"
    and "rows (img_canvas st) = rows img" and "cols (img_canvas st) = cols img"
  shows "\<exists>out. merge_header_canvas st img = Inr out \<and>
           (\<forall>r c. r < rows (header st) \<and> c < cols (header st) \<longrightarrow>
              (px (img_canvas st) r c = (0, 0, 0) \<longrightarrow> px out r c = px (header st) r c) \<and>
              (50 < gray_of (px (img_canvas st) r c) \<longrightarrow> px out r c = px (img_canvas st) r c))"
proof -
  obtain out where out: "merge_header_canvas st img = Inr out"
    and at: "\<And>r c. r < rows (header st) \<and> c < cols (header st) \<Longrightarrow>
              px out r c =
                pixel_or (pixel_and (px (header st) r c)
                            (if 50 < gray_of (px (img_canvas st) r c) then (0, 0, 0)
                             else (255, 255, 255)))
                         (px (img_canvas st) r c)"
    using merge_pixel [OF assms] by blast
  have "px out r c = px (header st) r c"
    if "r < rows (header st) \<and> c < cols (header st)" "px (img_canvas st) r c = (0, 0, 0)" for r c
    using at [OF that(1)] that(2) by (simp add: gray_of_black pixel_and_white pixel_or_black)
  moreover have "px out r c = px (img_canvas st) r c"
    if "r < rows (header st) \<and> c < cols (header st)" "50 < gray_of (px (img_canvas st) r c)" for r c
    using at [OF that(1)] that(2) by (simp add: pixel_and_black pixel_or_black_left)
  ultimately show ?thesis using out by blast
qed

theorem header_then_canvas_on_top_witness:
  "rows (header (fst (draw_mode start camera (100, 50)))) \<le> rows camera \<and>
   cols (header (fst (draw_mode start camera (100, 50)))) \<le> cols camera \<and>
   rows (img_canvas (fst (draw_mode start camera (100, 50)))) = rows camera \<and>
   cols (img_canvas (fst (draw_mode start camera (100, 50)))) = cols camera \<and>
   50 < rows (header (fst (draw_mode start camera (100, 50)))) \<and>
   600 < cols (header (fst (draw_mode start camera (100, 50)))) \<and>
   px (img_canvas (fst (draw_mode start camera (100, 50)))) 50 600 = (0, 0, 0) \<and>
   50 < gray_of (px (img_canvas (fst (draw_mode start camera (100, 50)))) 50 100) \<and>
   (\<exists>out. merge_header_canvas (fst (draw_mode start camera (100, 50))) camera = Inr out \<and>
      px out 50 600 = (10, 10, 10) \<and> px out 50 100 = (0, 0, 255))"
proof -
  define st where "st = fst (draw_mode start camera (100, 50))"
  have shape: "rows (header st) \<le> rows camera" "cols (header st) \<le> cols camera"
    "rows (img_canvas st) = rows camera" "cols (img_canvas st) = cols camera"
    and inside: "50 < rows (header st)" "600 < cols (header st)" "100 < cols (header st)"
    and hd: "px (header st) 50 600 = (10, 10, 10)"
    and blank: "px (img_canvas st) 50 600 = (0, 0, 0)"
    and red: "px (img_canvas st) 50 100 = (0, 0, 255)"
    by (simp_all add: st_def draw_mode_eq start_def toolbars_def plain_def camera_def shape_line
        px_line np_zeros_def HEIGHT_def WIDTH_def on_thick_line_def)
  have painted: "50 < gray_of (px (img_canvas st) 50 100)"
    by (simp add: red gray_of_red)
  obtain out where out: "merge_header_canvas st camera = Inr out"
    and at: "\<forall>r c. r < rows (header st) \<and> c < cols (header st) \<longrightarrow>
              (px (img_canvas st) r c = (0, 0, 0) \<longrightarrow> px out r c = px (header st) r c) \<and>
              (50 < gray_of (px (img_canvas st) r c) \<longrightarrow> px out r c = px (img_canvas st) r c)"
    using header_then_canvas_on_top [OF shape] by blast
  have "px out 50 600 = (10, 10, 10)"
    using at inside blank hd by simp
  moreover have "px out 50 100 = (0, 0, 255)"
    using at inside painted red by simp
  ultimately show ?thesis
    using shape inside blank painted out unfolding st_def by blast
qed

section \<open>Painted pixels\<close>

lemma pick_tool_keeps:
  assumes "pick_tool ovl st x y = Inr st'"
  shows "img_canvas st' = img_canvas st \<and> last_x st' = last_x st \<and> last_y st' = last_y st"
  using assms
  by (auto simp add: pick_tool_def and_then_def split: if_splits sum.splits)

lemma pick_tool_color:
  assumes "pick_tool ovl st x y = Inr st'" and "draw_color st \<noteq> (0, 0, 0)"
    and "\<not> (y < 100 \<and> 1030 < x \<and> x < 1250)"
  shows "draw_color st' \<noteq> (0, 0, 0)"
  using assms
  by (auto simp add: pick_tool_def and_then_def split: if_splits sum.splits)

lemma gestures_keep_paint:
  assumes run: "handle_gestures ovl st img lm = Inr (st', img')"
    and no_clear: "\<forall>fs. fingersUp lm = Inr fs \<longrightarrow> \<not> list_all (\<lambda>x. 1 \<le> x) fs"
    and no_eraser: "\<forall>l. item lm 8 = Inr l \<longrightarrow> \<not> (lm_y l < 100 \<and> 1030 < lm_x l \<and> lm_x l < 1250)"
    and col: "draw_color st \<noteq> (0, 0, 0)" and painted: "px (img_canvas st) r c \<noteq> (0, 0, 0)"
  shows "px (img_canvas st') r c \<noteq> (0, 0, 0) \<and> draw_color st' \<noteq> (0, 0, 0)"
proof (cases "0 < length lm")
  case False
  with run col painted show ?thesis by (simp add: handle_gestures_def)
next
  case True
  with run obtain fs l1 l2 st1 img1 where
    fs: "fingersUp lm = Inr fs" and l1: "item lm 8 = Inr l1" and l2: "item lm 12 = Inr l2"
    and br: "(if fs ! 1 \<noteq> 0 \<and> fs ! 2 \<noteq> 0
               then selection_mode ovl st img (snd l1) (snd l2)
              else if fs ! 1 \<noteq> 0 \<and> \<not> fs ! 2 \<noteq> 0
               then Inr (draw_mode st img (snd l1))
              else Inr (st, img)) = Inr (st1, img1)"
    and fin: "st' = clear_canvas fs st1"
    by (auto simp add: handle_gestures_def tipIds_def and_then_def split: sum.splits)
  have st': "st' = st1"
    using no_clear fs by (simp add: fin clear_canvas_def)
  obtain x1 y1 where p1: "snd l1 = (x1, y1)" by (cases "snd l1")
  obtain x2 y2 where p2: "snd l2 = (x2, y2)" by (cases "snd l2")
  consider (sel) "fs ! 1 \<noteq> 0 \<and> fs ! 2 \<noteq> 0" | (draw) "fs ! 1 \<noteq> 0 \<and> fs ! 2 = 0" | (idle) "fs ! 1 = 0"
    by blast
  then show ?thesis
  proof cases
    case sel
    with br obtain st2 where pick: "pick_tool ovl (st\<lparr>last_x := 0, last_y := 0\<rparr>) x1 y1 = Inr st2"
      and st1: "st1 = st2"
      by (auto simp add: selection_mode_def p1 p2 and_then_def split: sum.splits)
    have "\<not> (y1 < 100 \<and> 1030 < x1 \<and> x1 < 1250)"
      using no_eraser l1 p1 by (simp add: lm_x_def lm_y_def)
    from pick_tool_color [OF pick _ this] pick_tool_keeps [OF pick] col painted
    show ?thesis by (simp add: st' st1)
  next
    case draw
    with br have "st1 = fst (draw_mode st img (x1, y1))" by (simp add: p1)
    with col painted show ?thesis
      by (simp add: st' draw_mode_eq px_line)
  next
    case idle
    with br have "st1 = st" by simp
    with col painted show ?thesis by (simp add: st')
  qed
qed


lemma frame_keeps_paint:
  assumes "process_frame ovl st img lm = Inr (st', out)"
    and "\<forall>fs. fingersUp lm = Inr fs \<longrightarrow> \<not> list_all (\<lambda>x. 1 \<le> x) fs"
    and "\<forall>l. item lm 8 = Inr l \<longrightarrow> \<not> (lm_y l < 100 \<and> 1030 < lm_x l \<and> lm_x l < 1250)"
    and "draw_color st \<noteq> (0, 0, 0)" and "px (img_canvas st) r c \<noteq> (0, 0, 0)"
  shows "px (img_canvas st') r c \<noteq> (0, 0, 0) \<and> draw_color st' \<noteq> (0, 0, 0)"
proof -
  from assms(1) obtain img' where "handle_gestures ovl st img lm = Inr (st', img')"
    by (auto simp add: process_frame_def and_then_def split: sum.splits)
  from gestures_keep_paint [OF this assms(2-5)] show ?thesis .
qed

lemma pointing_frame:
  "snd p < 500 \<Longrightarrow> handle_gestures ovl st img (pointing p) = Inr (draw_mode st img p)"
  using drawing_frame [OF length_pointing fingers_pointing, of p ovl st img]
  by (simp add: tip_pointing)

lemma two_fingers_frame:
  assumes "snd p < 500"
  shows "handle_gestures ovl st img (two_fingers p) =
           and_then (pick_tool ovl (st\<lparr>last_x := 0, last_y := 0\<rparr>) (fst p) (snd p))
             (\<lambda>st'. Inr (st', cv2_rectangle_filled img (fst p, snd p - 25) (fst p, snd p + 25)
                                (draw_color st')))"
proof -
  obtain x y where p: "p = (x, y)" by (cases p)
  show ?thesis
    unfolding gestures_21 [OF length_two_fingers fingers_two_fingers [OF assms]]
    by (cases "pick_tool ovl (st\<lparr>last_x := 0, last_y := 0\<rparr>) x y")
       (simp_all add: p tips_two_fingers selection_mode_def and_then_Inr and_then_Inl
          clear_canvas_def)
qed

text \<open>
  C5 as stated fails: region 3 sets the colour (0, 0, 0), the value of the background.
  A drawing frame at (100, 100) paints the canvas pixel there red; after a selection
  frame with the index fingertip at (1100, 50) a second drawing frame at (100, 100) sets
  the same pixel back to zero, with no clearing in between.
\<close>

theorem eraser_colour_unpaints_counterexample:
  "canvas_pixel 100 100 (main_loop toolbars start [(camera, pointing (100, 100))]) = Inr (0, 0, 255) \<and>
   canvas_pixel 100 100
     (main_loop toolbars start
        [(camera, pointing (100, 100)), (camera, two_fingers (1100, 50)),
         (camera, pointing (100, 100))]) = Inr (0, 0, 0)"
proof -
  define st1 where "st1 = fst (draw_mode start camera (100, 100))"
  define st2 where "st2 = st1\<lparr>last_x := 0, last_y := 0, header := toolbars ! 3, draw_color := (0, 0, 0)\<rparr>"
  define st3 where "st3 = fst (draw_mode st2 camera (100, 100))"
  have s1: "rows (header st1) = 125" "cols (header st1) = 1280"
    "rows (img_canvas st1) = 720" "cols (img_canvas st1) = 1280"
    "px (img_canvas st1) 100 100 = (0, 0, 255)"
    by (simp_all add: st1_def draw_mode_eq start_def toolbars_def plain_def shape_line np_zeros_def
        HEIGHT_def WIDTH_def px_line on_thick_line_def)
  have s2: "rows (header st2) = 125" "cols (header st2) = 1280"
    "rows (img_canvas st2) = 720" "cols (img_canvas st2) = 1280"
    "last_x st2 = 0" "last_y st2 = 0" "draw_color st2 = (0, 0, 0)"
    by (simp_all add: st2_def s1 toolbars_def plain_def)
  have s3: "rows (header st3) = 125" "cols (header st3) = 1280"
    "rows (img_canvas st3) = 720" "cols (img_canvas st3) = 1280"
    "px (img_canvas st3) 100 100 = (0, 0, 0)"
    by (simp_all add: st3_def draw_mode_eq s2 shape_line px_line on_thick_line_def)
  have cam: "rows camera = 720" "cols camera = 1280"
    by (simp_all add: camera_def plain_def)
  have g1: "handle_gestures toolbars start camera (pointing (100, 100))
              = Inr (st1, cv2_circle_filled camera (100, 100) 20 (0, 0, 255))"
    by (simp add: pointing_frame st1_def draw_mode_eq start_def)
  have g2: "handle_gestures toolbars st1 camera (two_fingers (1100, 50))
              = Inr (st2, cv2_rectangle_filled camera (1100, 25) (1100, 75) (0, 0, 0))"
    by (simp add: two_fingers_frame pick_tool_cases toolbars_def and_then_Inr st2_def)
  have g3: "handle_gestures toolbars st2 camera (pointing (100, 100))
              = Inr (st3, cv2_circle_filled camera (100, 100) 20 (0, 0, 0))"
    by (simp add: pointing_frame st3_def draw_mode_eq s2)
  have l1: "main_loop toolbars start ((camera, pointing (100, 100)) # fs) = main_loop toolbars st1 fs" for fs
    using g1 by (rule main_loop_Cons) (simp_all add: s1 cam shape_circle)
  have l2: "main_loop toolbars st1 ((camera, two_fingers (1100, 50)) # fs) = main_loop toolbars st2 fs" for fs
    using g2 by (rule main_loop_Cons) (simp_all add: s2 cam shape_rectangle)
  have l3: "main_loop toolbars st2 ((camera, pointing (100, 100)) # fs) = main_loop toolbars st3 fs" for fs
    using g3 by (rule main_loop_Cons) (simp_all add: s3 cam shape_circle)
  show ?thesis
    unfolding l1 l2 l3 by (simp add: canvas_pixel_def s1 s3)
qed

text \<open>
  C5, as amended. Over every run of the main loop in which no frame shows all five
  fingers up and the index fingertip is never inside region 3 of the toolbar, starting
  with a colour other than (0, 0, 0), a pixel of the canvas that is painted stays
  painted. (With region 3's colour a stroke erases what it covers.)
\<close>

theorem paint_stays_without_eraser:
  assumes "main_loop ovl st frames = Inr st'"
    and "\<forall>f \<in> set frames. \<forall>fs. fingersUp (snd f) = Inr fs \<longrightarrow> \<not> list_all (\<lambda>x. 1 \<le> x) fs"
    and "\<forall>f \<in> set frames. \<forall>l. item (snd f) 8 = Inr l \<longrightarrow>
           \<not> (lm_y l < 100 \<and> 1030 < lm_x l \<and> lm_x l < 1250)"
    and "draw_color st \<noteq> (0, 0, 0)" and "px (img_canvas st) r c \<noteq> (0, 0, 0)"
  shows "px (img_canvas st') r c \<noteq> (0, 0, 0)"
  using assms
proof (induction frames arbitrary: st)
  case Nil
  then show ?case by simp
next
  case (Cons f frames)
  from Cons.prems(1) obtain st1 out where
    step: "process_frame ovl st (fst f) (snd f) = Inr (st1, out)"
    and rest: "main_loop ovl st1 frames = Inr st'"
    by (auto simp add: and_then_def split: sum.splits)
  have "px (img_canvas st1) r c \<noteq> (0, 0, 0) \<and> draw_color st1 \<noteq> (0, 0, 0)"
    using frame_keeps_paint [OF step] Cons.prems(2-5) by simp
  with Cons.IH [OF rest] Cons.prems(2,3) show ?case by simp
qed

theorem paint_stays_without_eraser_witness:
  "fingersUp (two_fingers (400, 50)) = Inr [0, 1, 1, 0, 0] \<and>
   fingersUp (pointing (100, 100)) = Inr [0, 1, 0, 0, 0] \<and>
   item (two_fingers (400, 50)) 8 = Inr (8, 400, 50) \<and>
   item (pointing (100, 100)) 8 = Inr (8, 100, 100) \<and>
   draw_color (fst (draw_mode start camera (100, 100))) = (0, 0, 255) \<and>
   px (img_canvas (fst (draw_mode start camera (100, 100)))) 100 100 = (0, 0, 255) \<and>
   (\<exists>st'. main_loop toolbars (fst (draw_mode start camera (100, 100)))
             [(camera, two_fingers (400, 50)), (camera, pointing (100, 100))] = Inr st' \<and>
          draw_color st' = (255, 0, 0) \<and>
          px (img_canvas st') 100 100 \<noteq> (0, 0, 0))"
proof -
  define st1 where "st1 = fst (draw_mode start camera (100, 100))"
  define st2 where "st2 = st1\<lparr>last_x := 0, last_y := 0, header := toolbars ! 1, draw_color := (255, 0, 0)\<rparr>"
  define st3 where "st3 = fst (draw_mode st2 camera (100, 100))"
  have s1: "rows (header st1) = 125" "cols (header st1) = 1280"
    "rows (img_canvas st1) = 720" "cols (img_canvas st1) = 1280"
    "px (img_canvas st1) 100 100 = (0, 0, 255)" "draw_color st1 = (0, 0, 255)"
    by (simp_all add: st1_def draw_mode_eq start_def toolbars_def plain_def shape_line np_zeros_def
        HEIGHT_def WIDTH_def px_line on_thick_line_def)
  have s2: "rows (header st2) = 125" "cols (header st2) = 1280"
    "rows (img_canvas st2) = 720" "cols (img_canvas st2) = 1280"
    "last_x st2 = 0" "last_y st2 = 0" "draw_color st2 = (255, 0, 0)"
    by (simp_all add: st2_def s1 toolbars_def plain_def)
  have s3: "rows (header st3) = 125" "cols (header st3) = 1280"
    "rows (img_canvas st3) = 720" "cols (img_canvas st3) = 1280" "draw_color st3 = (255, 0, 0)"
    by (simp_all add: st3_def draw_mode_eq s2 shape_line)
  have cam: "rows camera = 720" "cols camera = 1280"
    by (simp_all add: camera_def plain_def)
  have g2: "handle_gestures toolbars st1 camera (two_fingers (400, 50))
              = Inr (st2, cv2_rectangle_filled camera (400, 25) (400, 75) (255, 0, 0))"
    by (simp add: two_fingers_frame pick_tool_cases toolbars_def and_then_Inr st2_def)
  have g3: "handle_gestures toolbars st2 camera (pointing (100, 100))
              = Inr (st3, cv2_circle_filled camera (100, 100) 20 (255, 0, 0))"
    by (simp add: pointing_frame st3_def draw_mode_eq s2)
  have l2: "main_loop toolbars st1 ((camera, two_fingers (400, 50)) # fs) = main_loop toolbars st2 fs" for fs
    using g2 by (rule main_loop_Cons) (simp_all add: s2 cam shape_rectangle)
  have l3: "main_loop toolbars st2 ((camera, pointing (100, 100)) # fs) = main_loop toolbars st3 fs" for fs
    using g3 by (rule main_loop_Cons) (simp_all add: s3 cam shape_circle)
  have run: "main_loop toolbars st1 [(camera, two_fingers (400, 50)), (camera, pointing (100, 100))]
               = Inr st3"
    unfolding l2 l3 by simp
  have f: "fingersUp (two_fingers (400, 50)) = Inr [0, 1, 1, 0, 0]"
    "fingersUp (pointing (100, 100)) = Inr [0, 1, 0, 0, 0]"
    by (simp_all add: fingers_two_fingers fingers_pointing)
  have i: "item (two_fingers (400, 50)) 8 = Inr (8, 400, 50)"
    "item (pointing (100, 100)) 8 = Inr (8, 100, 100)"
    by (simp_all add: item_def length_two_fingers tips_two_fingers length_pointing pointing_def
        length_fist)
  have "px (img_canvas st3) 100 100 \<noteq> (0, 0, 0)"
    by (rule paint_stays_without_eraser [OF run]) (simp_all add: f i s1 lm_x_def lm_y_def)
  then show ?thesis
    using f i s1 s3 run unfolding st1_def by blast
qed

end
